theory Spec2Isabelle
  imports Complex_Main "HOL-Library.AList" "HOL-Library.Sublist"
begin

section \<open>Device Activity Tracker: the web server and the dashboard consumer\<close>

text \<open>
  A shallow embedding of the two source files of the repository:
  \<^item> \<^verbatim>\<open>src/server.ts\<close>: the Socket.IO control surface (\<^verbatim>\<open>add-contact\<close>,
    \<^verbatim>\<open>remove-contact\<close>, \<^verbatim>\<open>set-probe-method\<close>) over the tracker registry;
  \<^item> the dashboard component (\<^verbatim>\<open>Dashboard\<close>), whose \<^verbatim>\<open>useEffect\<close> handlers fold the
    server's events into the \<^verbatim>\<open>contacts\<close> map.

  The class \<^verbatim>\<open>WhatsAppTracker\<close> (\<^verbatim>\<open>./tracker\<close>) is imported by the server but its file is
  not among the sources; the few operations the server calls on it are modelled from the
  specification and marked as such.
\<close>

subsection \<open>Wire data: snapshots and events\<close>

text \<open>JavaScript numbers are only copied by the code modelled here, never computed with.\<close>

type_synonym number = real

text \<open>\<^verbatim>\<open>interface DeviceInfo { jid; state; rtt; avg }\<close>. Field names carry a prefix, since
  several interfaces of the source share the names \<^verbatim>\<open>jid\<close>, \<^verbatim>\<open>state\<close>, \<^verbatim>\<open>rtt\<close> and \<^verbatim>\<open>avg\<close>.\<close>

record DeviceInfo =
  dev_jid :: string
  dev_state :: string
  dev_rtt :: number
  dev_avg :: number

text \<open>The \<^verbatim>\<open>data\<close> part of a \<^verbatim>\<open>tracker-update\<close> event, with the fields the dashboard
  reads. Every field may be \<^verbatim>\<open>undefined\<close> (\<open>None\<close>); \<^verbatim>\<open>presence\<close> may also be
  \<^verbatim>\<open>null\<close> (\<open>Some None\<close>).\<close>

record snapshot =
  upd_presence :: "string option option"
  upd_deviceCount :: "nat option"
  upd_devices :: "DeviceInfo list option"
  upd_median :: "number option"
  upd_threshold :: "number option"

text \<open>\<^verbatim>\<open>socket.emit\<close> answers the requesting client, \<^verbatim>\<open>io.emit\<close> reaches every client.\<close>

datatype recipient = Requester | Everyone

datatype message =
    ErrorMsg "string option" string
  | ContactAdded string string
  | ContactRemoved string
  | ProfilePic string "string option"
  | ContactName string string
  | ProbeMethodMsg string
  | TrackerUpdate string snapshot

type_synonym emission = "recipient \<times> message"

subsection \<open>The tracker object\<close>

datatype phase = Idle | Tracking | Stopped

text \<open>A \<^verbatim>\<open>WhatsAppTracker\<close> instance as far as the server touches it. \<open>onUpdate\<close> holds the
  callback the server assigns in lines 113-118; that closure captures nothing but
  \<^verbatim>\<open>result.jid\<close>, so it is represented by this identity (\<open>None\<close>: not assigned).\<close>

record WhatsAppTracker =
  targetJid :: string
  probeMethod :: string
  phase :: phase
  onUpdate :: "string option"

text \<open>Modelled from the spec: the constructor of \<^verbatim>\<open>WhatsAppTracker\<close> (file \<^verbatim>\<open>tracker.ts\<close> is
  missing). Section 4.2: a tracker is \<open>Idle\<close> on construction. Its initial probe method is
  overwritten by line 110 of the server before anything reads it.\<close>

definition new_tracker :: "string \<Rightarrow> WhatsAppTracker" where
  "new_tracker j = \<lparr>targetJid = j, probeMethod = ''delete'', phase = Idle, onUpdate = None\<rparr>"

text \<open>Modelled from the spec: \<^verbatim>\<open>WhatsAppTracker.setProbeMethod\<close> (missing). Section 4.2:
  ``a pure assignment of the active strategy reference''.\<close>

definition setProbeMethod :: "string \<Rightarrow> WhatsAppTracker \<Rightarrow> WhatsAppTracker" where
  "setProbeMethod m t = t\<lparr>probeMethod := m\<rparr>"

text \<open>Modelled from the spec: \<^verbatim>\<open>WhatsAppTracker.startTracking\<close> (missing). Section 4.2:
  \<open>Idle \<rightarrow> Tracking \<rightarrow> Stopped\<close>, with \<open>Stopped\<close> terminal.\<close>

definition startTracking :: "WhatsAppTracker \<Rightarrow> WhatsAppTracker" where
  "startTracking t = (if phase t = Idle then t\<lparr>phase := Tracking\<rparr> else t)"

text \<open>Modelled from the spec: \<^verbatim>\<open>WhatsAppTracker.stopTracking\<close> (missing). Section 4.2:
  it ``transitions to Stopped, cancels the loop, and discards all further results'', and
  is idempotent.\<close>

definition stopTracking :: "WhatsAppTracker \<Rightarrow> WhatsAppTracker" where
  "stopTracking t = t\<lparr>phase := Stopped\<rparr>"

text \<open>Modelled from the spec: the end of a probe round inside \<^verbatim>\<open>WhatsAppTracker\<close> (missing).
  Section 4.2, step 5: while \<open>Tracking\<close> the snapshot goes to the registered observer once;
  a result that arrives after the transition to \<open>Stopped\<close> is dropped. The observer is the
  server's closure of lines 113-118: \<^verbatim>\<open>io.emit('tracker-update', { jid: result.jid, ...data })\<close>.\<close>

definition round_result :: "WhatsAppTracker \<Rightarrow> snapshot \<Rightarrow> emission list" where
  "round_result t d =
     (if phase t = Tracking
      then (case onUpdate t of None \<Rightarrow> [] | Some j \<Rightarrow> [(Everyone, TrackerUpdate j d)])
      else [])"

subsection \<open>The server's state\<close>

text \<open>
  \<^verbatim>\<open>let globalProbeMethod: ProbeMethod = 'delete';\<close>
  \<^verbatim>\<open>const trackers: Map<string, WhatsAppTracker> = new Map(); // JID -> Tracker instance\<close>

  The map holds references to tracker objects, and an object lives on when its entry is
  overwritten or deleted. So the state has a store of all tracker objects ever created
  (\<open>objects\<close>, a reference is an index into it) and the registry as an association list
  from JID to reference, in insertion order as a JavaScript \<^verbatim>\<open>Map\<close> keeps it:
  \<^verbatim>\<open>set\<close> is \<^const>\<open>AList.update\<close> (an existing key keeps its place, a new one goes last),
  \<^verbatim>\<open>get\<close> is \<^const>\<open>map_of\<close>, \<^verbatim>\<open>delete\<close> is \<^const>\<open>AList.delete\<close>.
  The probe method is a string: the type \<^verbatim>\<open>ProbeMethod\<close> is erased at run time, which is
  why the handler of \<^verbatim>\<open>set-probe-method\<close> checks it.
\<close>

record server =
  globalProbeMethod :: string
  trackers :: "(string \<times> nat) list"
  objects :: "WhatsAppTracker list"

definition initial :: server where
  "initial = \<lparr>globalProbeMethod = ''delete'', trackers = [], objects = []\<rparr>"

text \<open>The outcome of an awaited call on the platform socket: it resolves or it rejects
  (the \<^verbatim>\<open>catch\<close> branches).\<close>

datatype 'a promise = Resolved 'a | Rejected

text \<open>One entry of the array \<^verbatim>\<open>sock.onWhatsApp\<close> resolves to; the server reads
  \<^verbatim>\<open>exists\<close>, \<^verbatim>\<open>jid\<close> and \<^verbatim>\<open>notify\<close>.\<close>

record wa_result =
  wa_exists :: bool
  wa_jid :: string
  wa_notify :: "string option"

type_synonym lookup = "wa_result list option promise"

text \<open>\<^verbatim>\<open>results?.[0]\<close>: undefined for a missing or empty array.\<close>

definition first_result :: "wa_result list option \<Rightarrow> wa_result option" where
  "first_result results =
     (case results of None \<Rightarrow> None | Some [] \<Rightarrow> None | Some (r # rest) \<Rightarrow> Some r)"

subsection \<open>\<^verbatim>\<open>add-contact\<close> (lines 94-145)\<close>

text \<open>\<^verbatim>\<open>number.replace(/\D/g, '')\<close> keeps the ASCII digits.\<close>

definition is_digit :: "char \<Rightarrow> bool" where
  "is_digit c = (c \<in> set ''0123456789'')"

definition cleanNumber :: "string \<Rightarrow> string" where
  "cleanNumber number = filter is_digit number"

definition targetJid_of :: "string \<Rightarrow> string" where
  "targetJid_of number = cleanNumber number @ ''@s.whatsapp.net''"

text \<open>Lines 95-102, the part of the handler that runs before its first \<^verbatim>\<open>await\<close>: the
  duplicate check against \<^verbatim>\<open>targetJid\<close>. \<open>Inl\<close> is the early return with its emission,
  \<open>Inr\<close> the handler suspended in line 105 with its locals \<^verbatim>\<open>cleanNumber\<close> and
  \<^verbatim>\<open>targetJid\<close>.\<close>

definition add_contact_check :: "server \<Rightarrow> string \<Rightarrow> emission list + string \<times> string" where
  "add_contact_check s number =
     (if map_of (trackers s) (targetJid_of number) \<noteq> None
      then Inl [(Requester, ErrorMsg (Some (targetJid_of number)) ''Already tracking this contact'')]
      else Inr (cleanNumber number, targetJid_of number))"

text \<open>Lines 124-132: the display name is \<^verbatim>\<open>notify\<close> of the second lookup when that is a
  non-empty string, and the cleaned number otherwise (also when the lookup rejects).\<close>

definition contact_name :: "string \<Rightarrow> lookup \<Rightarrow> string" where
  "contact_name clean r2 =
     (case r2 of
        Rejected \<Rightarrow> clean
      | Resolved info \<Rightarrow>
          (case first_result info of
             None \<Rightarrow> clean
           | Some r \<Rightarrow>
               (case wa_notify r of
                  None \<Rightarrow> clean
                | Some n \<Rightarrow> if n = [] then clean else n)))"

text \<open>Lines 105-144, the handler from the moment \<^verbatim>\<open>sock.onWhatsApp(targetJid)\<close> settles
  with \<open>r1\<close>, in the state \<open>s\<close> the server has at that moment. \<open>pp\<close> is how
  \<^verbatim>\<open>tracker.getProfilePicture()\<close> settles and \<open>r2\<close> how the second lookup does. Only the
  block of lines 109-120 changes the state; it contains no \<^verbatim>\<open>await\<close>. A rejection of
  \<open>pp\<close> lands in the outer \<^verbatim>\<open>catch\<close> of line 141.\<close>

definition add_contact_resume ::
  "server \<Rightarrow> string \<times> string \<Rightarrow> lookup \<Rightarrow> string option promise \<Rightarrow> lookup \<Rightarrow> server \<times> emission list"
where
  "add_contact_resume s ctx r1 pp r2 =
     (case ctx of (clean, target) \<Rightarrow>
        (case r1 of
           Rejected \<Rightarrow> (s, [(Requester, ErrorMsg (Some target) ''Verification failed'')])
         | Resolved results \<Rightarrow>
             (case first_result results of
                None \<Rightarrow> (s, [(Requester, ErrorMsg (Some target) ''Number not on WhatsApp'')])
              | Some result \<Rightarrow>
                  if wa_exists result then
                    let tracker = startTracking
                          ((setProbeMethod (globalProbeMethod s) (new_tracker (wa_jid result)))
                             \<lparr>onUpdate := Some (wa_jid result)\<rparr>);
                        s' = s\<lparr>trackers := AList.update (wa_jid result) (length (objects s)) (trackers s),
                               objects := objects s @ [tracker]\<rparr>
                    in (case pp of
                          Rejected \<Rightarrow> (s', [(Requester, ErrorMsg (Some target) ''Verification failed'')])
                        | Resolved ppUrl \<Rightarrow>
                            (s', [(Requester, ContactAdded (wa_jid result) clean),
                                  (Everyone, ProfilePic (wa_jid result) ppUrl),
                                  (Everyone, ContactName (wa_jid result) (contact_name clean r2))]))
                  else (s, [(Requester, ErrorMsg (Some target) ''Number not on WhatsApp'')]))))"

text \<open>The whole handler when nothing else runs between its steps.\<close>

definition add_contact ::
  "server \<Rightarrow> string \<Rightarrow> lookup \<Rightarrow> string option promise \<Rightarrow> lookup \<Rightarrow> server \<times> emission list"
where
  "add_contact s number r1 pp r2 =
     (case add_contact_check s number of
        Inl out \<Rightarrow> (s, out)
      | Inr ctx \<Rightarrow> add_contact_resume s ctx r1 pp r2)"

subsection \<open>\<^verbatim>\<open>remove-contact\<close> (lines 147-155)\<close>

definition remove_contact :: "server \<Rightarrow> string \<Rightarrow> server \<times> emission list" where
  "remove_contact s j =
     (case map_of (trackers s) j of
        None \<Rightarrow> (s, [])
      | Some r \<Rightarrow>
          (s\<lparr>trackers := AList.delete j (trackers s),
             objects := (objects s)[r := stopTracking (objects s ! r)]\<rparr>,
           [(Requester, ContactRemoved j)]))"

subsection \<open>\<^verbatim>\<open>set-probe-method\<close> (lines 157-172)\<close>

text \<open>The loop of lines 166-168 over \<^verbatim>\<open>trackers.values()\<close>.\<close>

definition set_all :: "string \<Rightarrow> nat list \<Rightarrow> WhatsAppTracker list \<Rightarrow> WhatsAppTracker list" where
  "set_all m refs os = fold (\<lambda>r os'. os'[r := setProbeMethod m (os' ! r)]) refs os"

definition set_probe_method :: "server \<Rightarrow> string \<Rightarrow> server \<times> emission list" where
  "set_probe_method s m =
     (if m \<noteq> ''delete'' \<and> m \<noteq> ''reaction''
      then (s, [(Requester, ErrorMsg None ''Invalid probe method'')])
      else (s\<lparr>globalProbeMethod := m,
               objects := set_all m (map snd (trackers s)) (objects s)\<rparr>,
            [(Everyone, ProbeMethodMsg m)]))"

subsection \<open>Runs of the server\<close>

datatype request =
    AddContact string lookup "string option promise" lookup
  | RemoveContact string
  | SetProbeMethod string

fun handle :: "server \<Rightarrow> request \<Rightarrow> server \<times> emission list" where
  "handle s (AddContact number r1 pp r2) = add_contact s number r1 pp r2"
| "handle s (RemoveContact j) = remove_contact s j"
| "handle s (SetProbeMethod m) = set_probe_method s m"

fun run :: "server \<Rightarrow> request list \<Rightarrow> server" where
  "run s [] = s"
| "run s (q # qs) = run (fst (handle s q)) qs"

text \<open>Every reference of the registry points at an object of the store, and that object
  was constructed for the key it is registered under (lines 109 and 111 use the same
  \<^verbatim>\<open>result.jid\<close>).\<close>

definition registry_ok :: "server \<Rightarrow> bool" where
  "registry_ok s =
     list_all (\<lambda>(j, r). r < length (objects s) \<and> targetJid (objects s ! r) = j) (trackers s)"

text \<open>The tracker objects that are running for the identity \<open>j\<close>.\<close>

definition active_for :: "server \<Rightarrow> string \<Rightarrow> nat list" where
  "active_for s j =
     filter (\<lambda>r. phase (objects s ! r) = Tracking \<and> targetJid (objects s ! r) = j)
       [0 ..< length (objects s)]"

text \<open>A request to which the platform answers with the identity it was asked about:
  \<^verbatim>\<open>result.jid\<close> is \<^verbatim>\<open>targetJid\<close> whenever the first lookup has a first entry.\<close>

definition echoes :: "request \<Rightarrow> bool" where
  "echoes q =
     (case q of
        AddContact number r1 pp r2 \<Rightarrow>
          (case r1 of
             Rejected \<Rightarrow> True
           | Resolved results \<Rightarrow>
               (case first_result results of
                  None \<Rightarrow> True
                | Some r \<Rightarrow> wa_jid r = targetJid_of number))
      | RemoveContact j \<Rightarrow> True
      | SetProbeMethod m \<Rightarrow> True)"

text \<open>Every running tracker object is the one the registry holds under the object's own
  identity, and the registry has each key once (a \<^verbatim>\<open>Map\<close> always has).\<close>

definition running_registered :: "server \<Rightarrow> bool" where
  "running_registered s =
     (registry_ok s \<and> distinct (map fst (trackers s))
      \<and> list_all (\<lambda>r. phase (objects s ! r) \<noteq> Tracking
                        \<or> map_of (trackers s) (targetJid (objects s ! r)) = Some r)
           [0 ..< length (objects s)])"

text \<open>What the handler of \<^verbatim>\<open>add-contact\<close> takes as the platform's confirmation that the
  number is a reachable account: the lookup resolved, it has a first entry, and that
  entry's \<^verbatim>\<open>exists\<close> is true (\<^verbatim>\<open>result?.exists\<close>, line 108).\<close>

definition verified :: "lookup \<Rightarrow> bool" where
  "verified r1 =
     (case r1 of
        Rejected \<Rightarrow> False
      | Resolved results \<Rightarrow>
          (case first_result results of None \<Rightarrow> False | Some r \<Rightarrow> wa_exists r))"

section \<open>The dashboard consumer\<close>

text \<open>\<^verbatim>\<open>interface TrackerData\<close>, one point of a contact's chart. \<^verbatim>\<open>threshold\<close> is copied
  from the update as it is, so it can be undefined.\<close>

record TrackerData =
  pt_rtt :: number
  pt_avg :: number
  pt_median :: number
  pt_threshold :: "number option"
  pt_state :: string
  pt_timestamp :: number

text \<open>\<^verbatim>\<open>interface ContactInfo\<close>.\<close>

record ContactInfo =
  c_jid :: string
  displayNumber :: string
  contactName :: string
  c_data :: "TrackerData list"
  c_devices :: "DeviceInfo list"
  deviceCount :: nat
  presence :: "string option"
  profilePic :: "string option"

text \<open>\<^verbatim>\<open>useState<Map<string, ContactInfo>>(new Map())\<close>\<close>

type_synonym contacts = "string \<rightharpoonup> ContactInfo"

text \<open>\<^verbatim>\<open>String.prototype.includes\<close>: \<open>str_includes s p\<close> is \<^verbatim>\<open>s.includes(p)\<close>.\<close>

fun str_includes :: "string \<Rightarrow> string \<Rightarrow> bool" where
  "str_includes [] p = (p = [])"
| "str_includes (c # cs) p = (prefix p (c # cs) \<or> str_includes cs p)"

text \<open>Line 72, for the device array \<open>d0 # ds\<close> (line 66 has checked that it is not empty):
  \<^verbatim>\<open>data.devices.find((d) => d.state.includes('Online'))?.state || data.devices[0].state\<close>.
  The operator \<^verbatim>\<open>||\<close> also falls through on an empty string.\<close>

definition chart_state :: "DeviceInfo \<Rightarrow> DeviceInfo list \<Rightarrow> string" where
  "chart_state d0 ds =
     (case find (\<lambda>d. str_includes (dev_state d) ''Online'') (d0 # ds) of
        None \<Rightarrow> dev_state d0
      | Some d \<Rightarrow> if dev_state d = [] then dev_state d0 else dev_state d)"

text \<open>Lines 65-76: a chart point is appended when the update has a median and a non-empty
  device array. \<open>now\<close> is \<^verbatim>\<open>Date.now()\<close>.\<close>

definition add_point :: "snapshot \<Rightarrow> number \<Rightarrow> ContactInfo \<Rightarrow> ContactInfo" where
  "add_point d now c =
     (case upd_median d of
        None \<Rightarrow> c
      | Some med \<Rightarrow>
          (case upd_devices d of
             None \<Rightarrow> c
           | Some [] \<Rightarrow> c
           | Some (d0 # ds) \<Rightarrow>
               c\<lparr>c_data := c_data c @
                    [\<lparr>pt_rtt = dev_rtt d0, pt_avg = dev_avg d0, pt_median = med,
                      pt_threshold = upd_threshold d, pt_state = chart_state d0 ds,
                      pt_timestamp = now\<rparr>]\<rparr>))"

text \<open>Lines 53-76, the update of an existing contact.\<close>

definition update_contact :: "snapshot \<Rightarrow> number \<Rightarrow> ContactInfo \<Rightarrow> ContactInfo" where
  "update_contact d now contact =
     (let c1 = (case upd_presence d of None \<Rightarrow> contact | Some p \<Rightarrow> contact\<lparr>presence := p\<rparr>);
          c2 = (case upd_deviceCount d of None \<Rightarrow> c1 | Some n \<Rightarrow> c1\<lparr>deviceCount := n\<rparr>);
          c3 = (case upd_devices d of None \<Rightarrow> c2 | Some ds \<Rightarrow> c2\<lparr>c_devices := ds\<rparr>)
      in add_point d now c3)"

text \<open>Lines 43-83. The event is untyped (\<^verbatim>\<open>update: any\<close>), so its \<^verbatim>\<open>jid\<close> may be missing
  (\<open>None\<close>); \<^verbatim>\<open>if (!jid) return\<close> also catches the empty string.\<close>

definition onTrackerUpdate :: "string option \<Rightarrow> snapshot \<Rightarrow> number \<Rightarrow> contacts \<Rightarrow> contacts" where
  "onTrackerUpdate jid d now prev =
     (case jid of
        None \<Rightarrow> prev
      | Some j \<Rightarrow>
          if j = [] then prev
          else (case prev j of
                  None \<Rightarrow> prev
                | Some contact \<Rightarrow> prev(j \<mapsto> update_contact d now contact)))"

text \<open>Lines 85-94.\<close>

definition onProfilePic :: "string \<Rightarrow> string option \<Rightarrow> contacts \<Rightarrow> contacts" where
  "onProfilePic j url prev =
     (case prev j of None \<Rightarrow> prev | Some contact \<Rightarrow> prev(j \<mapsto> contact\<lparr>profilePic := url\<rparr>))"

text \<open>Lines 96-105.\<close>

definition onContactName :: "string \<Rightarrow> string \<Rightarrow> contacts \<Rightarrow> contacts" where
  "onContactName j name prev =
     (case prev j of None \<Rightarrow> prev | Some contact \<Rightarrow> prev(j \<mapsto> contact\<lparr>contactName := name\<rparr>))"

text \<open>Lines 107-123.\<close>

definition onContactAdded :: "string \<Rightarrow> string \<Rightarrow> contacts \<Rightarrow> contacts" where
  "onContactAdded j number prev =
     prev(j \<mapsto> \<lparr>c_jid = j, displayNumber = number, contactName = number, c_data = [],
                 c_devices = [], deviceCount = 0, presence = None, profilePic = None\<rparr>)"

text \<open>Lines 125-131.\<close>

definition onContactRemoved :: "string \<Rightarrow> contacts \<Rightarrow> contacts" where
  "onContactRemoved j prev = prev(j := None)"

text \<open>The component's state that the socket handlers write, and the dispatch of lines
  142-148. The timer that clears \<open>error\<close> after three seconds is not modelled.\<close>

record dashboard =
  inputNumber :: string
  contacts :: contacts
  error :: "string option"
  dashProbeMethod :: string

fun receive :: "number \<Rightarrow> dashboard \<Rightarrow> message \<Rightarrow> dashboard" where
  "receive now s (TrackerUpdate j d) = s\<lparr>contacts := onTrackerUpdate (Some j) d now (contacts s)\<rparr>"
| "receive now s (ProfilePic j url) = s\<lparr>contacts := onProfilePic j url (contacts s)\<rparr>"
| "receive now s (ContactName j name) = s\<lparr>contacts := onContactName j name (contacts s)\<rparr>"
| "receive now s (ContactAdded j number) =
     s\<lparr>contacts := onContactAdded j number (contacts s), inputNumber := []\<rparr>"
| "receive now s (ContactRemoved j) = s\<lparr>contacts := onContactRemoved j (contacts s)\<rparr>"
| "receive now s (ErrorMsg j txt) = s\<lparr>error := Some txt\<rparr>"
| "receive now s (ProbeMethodMsg m) = s\<lparr>dashProbeMethod := m\<rparr>"

section \<open>The device state classifier of the specification\<close>

datatype device_state = Online | Offline | Unknown

text \<open>Modelled from the spec: the device state classifier (it belongs to \<^verbatim>\<open>tracker.ts\<close>,
  which is missing). Section 4.4: no sample within the round's deadline gives \<open>Unknown\<close>;
  a sample with RTT at most the threshold gives \<open>Online\<close>; a sample with RTT above it
  gives \<open>Offline\<close>. \<open>sample\<close> is the round's RTT for the device, if one arrived.\<close>

definition classify :: "number option \<Rightarrow> number \<Rightarrow> device_state" where
  "classify sample threshold =
     (case sample of
        None \<Rightarrow> Unknown
      | Some rtt \<Rightarrow> if rtt \<le> threshold then Online else Offline)"

text \<open>Modelled from the spec: the string a state travels as in \<^verbatim>\<open>DeviceInfo.state\<close> (the
  code that writes it is in the missing \<^verbatim>\<open>tracker.ts\<close>): the name the specification gives
  the state.\<close>

fun state_name :: "device_state \<Rightarrow> string" where
  "state_name Online = ''Online''"
| "state_name Offline = ''Offline''"
| "state_name Unknown = ''Unknown''"

text \<open>The contact-level aggregate in the words of section 4.4, to be compared with
  \<^const>\<open>chart_state\<close>, which is what the dashboard computes: \<open>Online\<close> if any device is
  \<open>Online\<close>; else \<open>Offline\<close> if any device reported this round; else \<open>Unknown\<close>.\<close>

definition aggregate_spec :: "number \<Rightarrow> number option list \<Rightarrow> device_state" where
  "aggregate_spec threshold samples =
     (if list_ex (\<lambda>x. classify x threshold = Online) samples then Online
      else if list_ex (\<lambda>x. x \<noteq> None) samples then Offline
      else Unknown)"

section \<open>Properties of the server\<close>

subsection \<open>The registry and the store\<close>

lemma registry_ok_initial: "registry_ok initial"
  by (simp add: registry_ok_def initial_def)

lemma set_update_subset: "set (AList.update k v al) \<subseteq> insert (k, v) (set al)"
  by (induction al) auto

lemma set_delete_subset: "set (AList.delete k al) \<subseteq> set al"
  by (induction al) auto

lemma setProbeMethod_idem: "setProbeMethod m (setProbeMethod m t) = setProbeMethod m t"
  by (simp add: setProbeMethod_def)

lemma set_all_length: "length (set_all m refs os) = length os"
  unfolding set_all_def by (induction refs arbitrary: os) auto

text \<open>The loop applies \<^const>\<open>setProbeMethod\<close> to exactly the objects it is given
  references to.\<close>

lemma set_all_nth:
  "r < length os \<Longrightarrow>
   set_all m refs os ! r = (if r \<in> set refs then setProbeMethod m (os ! r) else os ! r)"
  unfolding set_all_def
proof (induction refs arbitrary: os)
  case Nil
  then show ?case by simp
next
  case (Cons x xs)
  let ?os = "os[x := setProbeMethod m (os ! x)]"
  have len: "r < length ?os" using Cons.prems by simp
  show ?case
  proof (cases "r = x")
    case True
    then show ?thesis
      using Cons.IH[OF len] Cons.prems by (simp add: setProbeMethod_idem)
  next
    case False
    then show ?thesis
      using Cons.IH[OF len] Cons.prems by (simp add: nth_list_update)
  qed
qed

lemma stop_targetJid:
  "b < length os \<Longrightarrow> targetJid (os[r := stopTracking (os ! r)] ! b) = targetJid (os ! b)"
  by (cases "b = r") (simp_all add: stopTracking_def)

lemma registry_ok_resume:
  assumes "registry_ok s"
  shows "registry_ok (fst (add_contact_resume s ctx r1 pp r2))"
proof -
  have ext: "registry_ok
       (s\<lparr>trackers := AList.update j (length (objects s)) (trackers s),
          objects := objects s @ [t]\<rparr>)" if "targetJid t = j" for j t
    using assms that set_update_subset[of j "length (objects s)" "trackers s"]
    by (auto simp: registry_ok_def list_all_iff nth_append)
  show ?thesis
    using assms
    by (cases ctx)
       (auto simp: add_contact_resume_def Let_def ext startTracking_def setProbeMethod_def
          new_tracker_def split: promise.splits option.splits)
qed

lemma registry_ok_remove:
  assumes "registry_ok s"
  shows "registry_ok (fst (remove_contact s j))"
proof (cases "map_of (trackers s) j")
  case None
  then show ?thesis using assms by (simp add: remove_contact_def)
next
  case (Some r)
  have "b < length (objects s) \<and>
        targetJid ((objects s)[r := stopTracking (objects s ! r)] ! b) = a"
    if "(a, b) \<in> set (AList.delete j (trackers s))" for a b
  proof -
    from that set_delete_subset[of j "trackers s"] have "(a, b) \<in> set (trackers s)" by blast
    with assms have "b < length (objects s)" and "targetJid (objects s ! b) = a"
      by (auto simp: registry_ok_def list_all_iff)
    then show ?thesis by (simp add: stop_targetJid)
  qed
  then show ?thesis
    using Some by (auto simp: remove_contact_def registry_ok_def list_all_iff)
qed

lemma registry_ok_set_probe_method:
  assumes "registry_ok s"
  shows "registry_ok (fst (set_probe_method s m))"
  using assms
  by (auto simp: set_probe_method_def registry_ok_def list_all_iff set_all_length
        set_all_nth setProbeMethod_def)

lemma registry_ok_handle:
  assumes "registry_ok s"
  shows "registry_ok (fst (handle s q))"
proof (cases q)
  case (AddContact number r1 pp r2)
  then show ?thesis
    using assms registry_ok_resume[OF assms]
    by (auto simp: add_contact_def split: sum.splits)
next
  case (RemoveContact j)
  then show ?thesis using registry_ok_remove[OF assms] by simp
next
  case (SetProbeMethod m)
  then show ?thesis using registry_ok_set_probe_method[OF assms] by simp
qed

text \<open>So the registry is well formed in every state the server reaches.\<close>

lemma registry_ok_run: "registry_ok s \<Longrightarrow> registry_ok (run s qs)"
  by (induction qs arbitrary: s) (auto simp: registry_ok_handle)

lemma registry_ok_reachable: "registry_ok (run initial qs)"
  by (rule registry_ok_run) (rule registry_ok_initial)

subsection \<open>\<^verbatim>\<open>add-contact\<close>\<close>

text \<open>The duplicate check works when the contact is registered under the very identity
  the handler computes from the number.\<close>

lemma already_tracking_rejected:
  "map_of (trackers s) (targetJid_of number) = Some r \<Longrightarrow>
   add_contact s number r1 pp r2 =
     (s, [(Requester, ErrorMsg (Some (targetJid_of number)) ''Already tracking this contact'')])"
  by (simp add: add_contact_def add_contact_check_def)

lemma resume_unverified:
  "\<not> verified r1 \<Longrightarrow>
   \<exists>msg. add_contact_resume s (c, t) r1 pp r2 = (s, [(Requester, ErrorMsg (Some t) msg)])"
  by (auto simp: verified_def add_contact_resume_def split: promise.splits option.splits)

text \<open>C5: a tracker is created and started only when the platform's verification has
  confirmed the number. When the verification rejects, or answers nothing, or answers that
  the number does not exist, the requester gets exactly one error and the server's state
  (registry and tracker objects) is what it was; so whenever the store of tracker objects
  or the registry changes, the verification had confirmed the number.\<close>

theorem add_contact_needs_verification:
  "(\<not> verified r1 \<longrightarrow>
      (\<exists>msg. add_contact s number r1 pp r2 =
          (s, [(Requester, ErrorMsg (Some (targetJid_of number)) msg)])))
   \<and> (objects (fst (add_contact s number r1 pp r2)) \<noteq> objects s \<longrightarrow> verified r1)
   \<and> (trackers (fst (add_contact s number r1 pp r2)) \<noteq> trackers s \<longrightarrow> verified r1)"
proof -
  have "\<exists>msg. add_contact s number r1 pp r2 =
          (s, [(Requester, ErrorMsg (Some (targetJid_of number)) msg)])" if "\<not> verified r1"
    using resume_unverified[OF that, of s "cleanNumber number" "targetJid_of number" pp r2]
    by (auto simp: add_contact_def add_contact_check_def)
  then show ?thesis by (metis fst_conv)
qed

theorem add_contact_needs_verification_witness:
  "\<not> verified (Resolved (Some [\<lparr>wa_exists = False, wa_jid = ''4930123@s.whatsapp.net'',
                                  wa_notify = None\<rparr>]))
   \<and> (\<exists>msg. add_contact initial ''+49 30 123''
          (Resolved (Some [\<lparr>wa_exists = False, wa_jid = ''4930123@s.whatsapp.net'',
                            wa_notify = None\<rparr>]))
          (Resolved None) Rejected
        = (initial, [(Requester, ErrorMsg (Some (targetJid_of ''+49 30 123'')) msg)]))
   \<and> targetJid_of ''+49 30 123'' = ''4930123@s.whatsapp.net''"
proof -
  have h: "\<not> verified (Resolved (Some [\<lparr>wa_exists = False, wa_jid = ''4930123@s.whatsapp.net'',
                                          wa_notify = None\<rparr>]))"
    by (simp add: verified_def first_result_def)
  have t: "targetJid_of ''+49 30 123'' = ''4930123@s.whatsapp.net''"
    by (simp add: targetJid_of_def cleanNumber_def is_digit_def)
  from h add_contact_needs_verification
    [of "Resolved (Some [\<lparr>wa_exists = False, wa_jid = ''4930123@s.whatsapp.net'',
                           wa_notify = None\<rparr>])" initial "''+49 30 123''" "Resolved None" Rejected]
  have "\<exists>msg. add_contact initial ''+49 30 123''
          (Resolved (Some [\<lparr>wa_exists = False, wa_jid = ''4930123@s.whatsapp.net'',
                            wa_notify = None\<rparr>]))
          (Resolved None) Rejected
        = (initial, [(Requester, ErrorMsg (Some (targetJid_of ''+49 30 123'')) msg)])"
    by blast
  with h t show ?thesis by blast
qed

text \<open>When the verification confirms the number and its \<^verbatim>\<open>targetJid\<close> is not a key of
  the registry, exactly one tracker object is created, for the identity the platform
  answered with; it is registered under that identity and it is running.\<close>

lemma add_contact_creates_started_tracker:
  assumes "r1 = Resolved results" and "first_result results = Some result"
    and "wa_exists result" and "map_of (trackers s) (targetJid_of number) = None"
  shows "\<exists>t. objects (fst (add_contact s number r1 pp r2)) = objects s @ [t]
           \<and> targetJid t = wa_jid result \<and> phase t = Tracking
           \<and> onUpdate t = Some (wa_jid result) \<and> probeMethod t = globalProbeMethod s
           \<and> map_of (trackers (fst (add_contact s number r1 pp r2))) (wa_jid result)
               = Some (length (objects s))"
  using assms
  by (auto simp: add_contact_def add_contact_check_def add_contact_resume_def Let_def
        startTracking_def setProbeMethod_def new_tracker_def AList.update_conv'
        split: promise.splits)

subsection \<open>One tracker per contact\<close>

text \<open>As long as the platform answers every lookup with the identity it was asked about
  and every request is handled to its end before the next one starts, at most one tracker
  object runs for an identity, in every state the server reaches.\<close>

lemma running_registeredD:
  assumes "running_registered s" and "r < length (objects s)"
  shows "phase (objects s ! r) \<noteq> Tracking
         \<or> map_of (trackers s) (targetJid (objects s ! r)) = Some r"
proof -
  from assms(1) have "\<forall>r \<in> set [0 ..< length (objects s)].
      phase (objects s ! r) \<noteq> Tracking
      \<or> map_of (trackers s) (targetJid (objects s ! r)) = Some r"
    unfolding running_registered_def list_all_iff by blast
  with assms(2) show ?thesis by (simp del: map_of_eq_Some_iff)
qed

lemma running_registered_initial: "running_registered initial"
  by (simp add: running_registered_def registry_ok_def initial_def)

lemma update_fresh: "map_of al k = None \<Longrightarrow> AList.update k v al = al @ [(k, v)]"
  by (induction al) (auto split: if_splits)

lemma running_registered_add:
  assumes inv: "running_registered s" and e: "echoes (AddContact number r1 pp r2)"
  shows "running_registered (fst (add_contact s number r1 pp r2))"
proof (cases "map_of (trackers s) (targetJid_of number)")
  case (Some r)
  then show ?thesis using inv by (simp add: add_contact_def add_contact_check_def)
next
  case None
  let ?ctx = "(cleanNumber number, targetJid_of number)"
  have ac: "add_contact s number r1 pp r2 = add_contact_resume s ?ctx r1 pp r2"
    using None by (simp add: add_contact_def add_contact_check_def)
  show ?thesis
  proof (cases "verified r1")
    case False
    from resume_unverified[OF False, of s "cleanNumber number" "targetJid_of number" pp r2]
    show ?thesis using inv ac by auto
  next
    case True
    then obtain results result where r1: "r1 = Resolved results"
        "first_result results = Some result" "wa_exists result"
      by (auto simp: verified_def split: promise.splits option.splits)
    with e have jid: "wa_jid result = targetJid_of number" by (simp add: echoes_def)
    define t where "t = startTracking
                          ((setProbeMethod (globalProbeMethod s) (new_tracker (wa_jid result)))
                             \<lparr>onUpdate := Some (wa_jid result)\<rparr>)"
    define s' where "s' = s\<lparr>trackers := trackers s @ [(targetJid_of number, length (objects s))],
                               objects := objects s @ [t]\<rparr>"
    have tj: "targetJid t = targetJid_of number"
      by (simp add: t_def startTracking_def setProbeMethod_def new_tracker_def jid)
    have fst: "fst (add_contact s number r1 pp r2) = s'"
      unfolding ac using r1 jid update_fresh[OF None]
      by (auto simp: add_contact_resume_def Let_def s'_def t_def split: promise.splits)
    have fresh: "targetJid_of number \<notin> fst ` set (trackers s)"
      using None by (simp add: map_of_eq_None_iff)
    have ok: "registry_ok s'"
      using registry_ok_resume[of s ?ctx r1 pp r2] inv fst ac
      by (simp add: running_registered_def)
    have dist: "distinct (map fst (trackers s'))"
      using inv fresh by (simp add: s'_def running_registered_def)
    have reg: "phase (objects s' ! r) \<noteq> Tracking
               \<or> map_of (trackers s') (targetJid (objects s' ! r)) = Some r"
      if "r < length (objects s')" for r
    proof (cases "r < length (objects s)")
      case True
      with inv have "phase (objects s ! r) \<noteq> Tracking
               \<or> map_of (trackers s) (targetJid (objects s ! r)) = Some r"
        by (rule running_registeredD)
      then show ?thesis
        using True by (auto simp: s'_def nth_append map_add_Some_iff)
    next
      case False
      with that have r: "r = length (objects s)" by (simp add: s'_def)
      show ?thesis
        using None by (simp add: r s'_def tj map_add_Some_iff)
    qed
    show ?thesis
      unfolding fst running_registered_def using ok dist reg
      by (simp add: list_all_iff)
  qed
qed

lemma running_registered_remove:
  assumes inv: "running_registered s"
  shows "running_registered (fst (remove_contact s j))"
proof (cases "map_of (trackers s) j")
  case None
  then show ?thesis using inv by (simp add: remove_contact_def)
next
  case (Some r)
  define s' where "s' = s\<lparr>trackers := AList.delete j (trackers s),
             objects := (objects s)[r := stopTracking (objects s ! r)]\<rparr>"
  have fst: "fst (remove_contact s j) = s'"
    using Some by (simp add: remove_contact_def s'_def)
  have ok: "registry_ok s'"
    using registry_ok_remove[of s j] inv fst by (simp add: running_registered_def)
  have dist: "distinct (map fst (trackers s'))"
    using inv by (simp add: s'_def running_registered_def AList.distinct_delete)
  have reg: "phase (objects s' ! b) \<noteq> Tracking
               \<or> map_of (trackers s') (targetJid (objects s' ! b)) = Some b"
    if "b < length (objects s')" for b
  proof (cases "b = r")
    case True
    then show ?thesis using that by (simp add: s'_def stopTracking_def)
  next
    case False
    from that have lt: "b < length (objects s)" by (simp add: s'_def)
    have same: "objects s' ! b = objects s ! b" using False by (simp add: s'_def)
    from inv lt have old: "phase (objects s ! b) \<noteq> Tracking
               \<or> map_of (trackers s) (targetJid (objects s ! b)) = Some b"
      by (rule running_registeredD)
    show ?thesis
    proof (cases "phase (objects s ! b) = Tracking")
      case False
      then show ?thesis by (simp add: same)
    next
      case True
      with old have m: "map_of (trackers s) (targetJid (objects s ! b)) = Some b" by simp
      with Some False have "targetJid (objects s ! b) \<noteq> j" by auto
      moreover have "trackers s' = AList.delete j (trackers s)" by (simp add: s'_def)
      ultimately show ?thesis unfolding same using m by simp
    qed
  qed
  show ?thesis
    unfolding fst running_registered_def using ok dist reg by (simp add: list_all_iff)
qed

lemma running_registered_set_probe_method:
  assumes inv: "running_registered s"
  shows "running_registered (fst (set_probe_method s m))"
proof (cases "m \<noteq> ''delete'' \<and> m \<noteq> ''reaction''")
  case True
  then show ?thesis using inv by (simp add: set_probe_method_def)
next
  case False
  have same: "phase (set_all m refs (objects s) ! r) = phase (objects s ! r)
            \<and> targetJid (set_all m refs (objects s) ! r) = targetJid (objects s ! r)"
    if "r < length (objects s)" for r refs
    using that by (simp add: set_all_nth setProbeMethod_def)
  show ?thesis
    using inv False registry_ok_set_probe_method[of s m]
    by (auto simp: running_registered_def set_probe_method_def list_all_iff set_all_length same)
qed

lemma running_registered_run:
  "running_registered s \<Longrightarrow> list_all echoes qs \<Longrightarrow> running_registered (run s qs)"
proof (induction qs arbitrary: s)
  case Nil
  then show ?case by simp
next
  case (Cons q qs)
  have "running_registered (fst (handle s q))"
  proof (cases q)
    case (AddContact number r1 pp r2)
    then show ?thesis using running_registered_add[of s number r1 pp r2] Cons.prems by simp
  next
    case (RemoveContact j)
    then show ?thesis using running_registered_remove[OF Cons.prems(1)] by simp
  next
    case (SetProbeMethod m)
    then show ?thesis using running_registered_set_probe_method[OF Cons.prems(1)] by simp
  qed
  with Cons show ?case by simp
qed

lemma at_most_one_active:
  assumes "running_registered s"
  shows "length (active_for s j) \<le> 1"
proof -
  have d: "distinct (active_for s j)" by (simp add: active_for_def)
  have sub: "set (active_for s j) \<subseteq> {r. map_of (trackers s) j = Some r}"
    using assms by (auto simp: active_for_def running_registered_def list_all_iff)
  have "{r. map_of (trackers s) j = Some r} \<subseteq> {the (map_of (trackers s) j)}" by auto
  with sub have "set (active_for s j) \<subseteq> {the (map_of (trackers s) j)}" by blast
  then have "card (set (active_for s j)) \<le> 1"
    by (metis card_mono finite.emptyI finite.insertI card.empty card.insert empty_iff One_nat_def)
  with d show ?thesis by (simp add: distinct_card)
qed

lemma one_tracker_when_platform_echoes:
  "list_all echoes qs \<Longrightarrow> length (active_for (run initial qs) j) \<le> 1"
  by (rule at_most_one_active) (rule running_registered_run[OF running_registered_initial])

text \<open>C1: at most one tracker per tracked contact, a second \<^verbatim>\<open>add-contact\<close> for a contact
  of the registry being rejected, and the registry key being the identity of the duplicate
  check. The code checks \<^verbatim>\<open>trackers.has(targetJid)\<close> (line 99) but stores under
  \<^verbatim>\<open>result.jid\<close> (line 111), the identity the platform answers with. Here the platform
  answers the number \<^verbatim>\<open>+55 11 98765-4321\<close> with the identity
  \<^verbatim>\<open>551187654321@s.whatsapp.net\<close>: after the first request the contact is in the registry
  under that key; the same request again is not rejected but answered with
  \<^verbatim>\<open>contact-added\<close>; afterwards two tracker objects run for the one identity, and the
  registry knows only the second.\<close>

theorem second_tracker_for_tracked_contact:
  "map_of (trackers (run initial
       [AddContact ''+55 11 98765-4321''
          (Resolved (Some [\<lparr>wa_exists = True, wa_jid = ''551187654321@s.whatsapp.net'',
                            wa_notify = None\<rparr>]))
          (Resolved None) Rejected]))
     ''551187654321@s.whatsapp.net'' = Some 0
   \<and> snd (handle
       (run initial
          [AddContact ''+55 11 98765-4321''
             (Resolved (Some [\<lparr>wa_exists = True, wa_jid = ''551187654321@s.whatsapp.net'',
                               wa_notify = None\<rparr>]))
             (Resolved None) Rejected])
       (AddContact ''+55 11 98765-4321''
          (Resolved (Some [\<lparr>wa_exists = True, wa_jid = ''551187654321@s.whatsapp.net'',
                            wa_notify = None\<rparr>]))
          (Resolved None) Rejected))
     = [(Requester, ContactAdded ''551187654321@s.whatsapp.net'' ''5511987654321''),
        (Everyone, ProfilePic ''551187654321@s.whatsapp.net'' None),
        (Everyone, ContactName ''551187654321@s.whatsapp.net'' ''5511987654321'')]
   \<and> active_for
       (run initial
          [AddContact ''+55 11 98765-4321''
             (Resolved (Some [\<lparr>wa_exists = True, wa_jid = ''551187654321@s.whatsapp.net'',
                               wa_notify = None\<rparr>]))
             (Resolved None) Rejected,
           AddContact ''+55 11 98765-4321''
             (Resolved (Some [\<lparr>wa_exists = True, wa_jid = ''551187654321@s.whatsapp.net'',
                               wa_notify = None\<rparr>]))
             (Resolved None) Rejected])
       ''551187654321@s.whatsapp.net'' = [0, 1]
   \<and> trackers
       (run initial
          [AddContact ''+55 11 98765-4321''
             (Resolved (Some [\<lparr>wa_exists = True, wa_jid = ''551187654321@s.whatsapp.net'',
                               wa_notify = None\<rparr>]))
             (Resolved None) Rejected,
           AddContact ''+55 11 98765-4321''
             (Resolved (Some [\<lparr>wa_exists = True, wa_jid = ''551187654321@s.whatsapp.net'',
                               wa_notify = None\<rparr>]))
             (Resolved None) Rejected])
     = [(''551187654321@s.whatsapp.net'', 1)]"
  by (simp add: initial_def add_contact_def add_contact_check_def add_contact_resume_def
        targetJid_of_def cleanNumber_def is_digit_def first_result_def contact_name_def
        Let_def active_for_def startTracking_def setProbeMethod_def new_tracker_def upt_rec)

text \<open>The same happens without any help from the platform when two requests for one
  number overlap: both pass the check of line 99 before either reaches line 111. Here the
  platform echoes the identity it was asked about, both handlers did their check in the
  initial state, and then both resume.\<close>

lemma overlapping_adds_create_two_trackers:
  "add_contact_check initial ''4915112345678''
     = Inr (''4915112345678'', ''4915112345678@s.whatsapp.net'')
   \<and> active_for
       (fst (add_contact_resume
          (fst (add_contact_resume initial (''4915112345678'', ''4915112345678@s.whatsapp.net'')
             (Resolved (Some [\<lparr>wa_exists = True, wa_jid = ''4915112345678@s.whatsapp.net'',
                               wa_notify = None\<rparr>]))
             (Resolved None) Rejected))
          (''4915112345678'', ''4915112345678@s.whatsapp.net'')
          (Resolved (Some [\<lparr>wa_exists = True, wa_jid = ''4915112345678@s.whatsapp.net'',
                            wa_notify = None\<rparr>]))
          (Resolved None) Rejected))
       ''4915112345678@s.whatsapp.net'' = [0, 1]"
  by (simp add: initial_def add_contact_check_def add_contact_resume_def
        targetJid_of_def cleanNumber_def is_digit_def first_result_def contact_name_def
        Let_def active_for_def startTracking_def setProbeMethod_def new_tracker_def upt_rec)

subsection \<open>\<^verbatim>\<open>remove-contact\<close>\<close>

text \<open>C8: for a tracked contact, \<^verbatim>\<open>remove-contact\<close> twice in a row: the first call stops
  the tracker, deletes the entry and emits one \<^verbatim>\<open>contact-removed\<close>; the second call
  changes nothing (registry and tracker objects are as the first call left them) and emits
  nothing, neither an error nor a second \<^verbatim>\<open>contact-removed\<close>.\<close>

theorem remove_contact_twice:
  assumes "map_of (trackers s) j = Some r"
  shows "remove_contact s j =
           (s\<lparr>trackers := AList.delete j (trackers s),
              objects := (objects s)[r := stopTracking (objects s ! r)]\<rparr>,
            [(Requester, ContactRemoved j)])
         \<and> remove_contact (fst (remove_contact s j)) j = (fst (remove_contact s j), [])"
  using assms by (simp add: remove_contact_def AList.delete_conv')

theorem remove_contact_twice_witness:
  "map_of (trackers
      \<lparr>globalProbeMethod = ''delete'', trackers = [(''1@s.whatsapp.net'', 0)],
       objects = [\<lparr>targetJid = ''1@s.whatsapp.net'', probeMethod = ''delete'',
                   phase = Tracking, onUpdate = Some ''1@s.whatsapp.net''\<rparr>]\<rparr>)
     ''1@s.whatsapp.net'' = Some 0
   \<and> remove_contact (fst (remove_contact
        \<lparr>globalProbeMethod = ''delete'', trackers = [(''1@s.whatsapp.net'', 0)],
         objects = [\<lparr>targetJid = ''1@s.whatsapp.net'', probeMethod = ''delete'',
                     phase = Tracking, onUpdate = Some ''1@s.whatsapp.net''\<rparr>]\<rparr>
        ''1@s.whatsapp.net'')) ''1@s.whatsapp.net''
     = (\<lparr>globalProbeMethod = ''delete'', trackers = [],
         objects = [\<lparr>targetJid = ''1@s.whatsapp.net'', probeMethod = ''delete'',
                     phase = Stopped, onUpdate = Some ''1@s.whatsapp.net''\<rparr>]\<rparr>, [])"
proof -
  let ?s = "\<lparr>globalProbeMethod = ''delete'', trackers = [(''1@s.whatsapp.net'', 0)],
       objects = [\<lparr>targetJid = ''1@s.whatsapp.net'', probeMethod = ''delete'',
                   phase = Tracking, onUpdate = Some ''1@s.whatsapp.net''\<rparr>]\<rparr>"
  have h: "map_of (trackers ?s) ''1@s.whatsapp.net'' = Some 0" by simp
  from remove_contact_twice[OF h]
  have "remove_contact (fst (remove_contact ?s ''1@s.whatsapp.net'')) ''1@s.whatsapp.net''
        = (fst (remove_contact ?s ''1@s.whatsapp.net''), [])"
    by blast
  moreover have "fst (remove_contact ?s ''1@s.whatsapp.net'')
        = \<lparr>globalProbeMethod = ''delete'', trackers = [],
           objects = [\<lparr>targetJid = ''1@s.whatsapp.net'', probeMethod = ''delete'',
                       phase = Stopped, onUpdate = Some ''1@s.whatsapp.net''\<rparr>]\<rparr>"
    by (simp add: remove_contact_def stopTracking_def)
  ultimately show ?thesis using h by simp
qed

text \<open>C9: a \<^verbatim>\<open>remove-contact\<close> request for an identity that is not a key of the registry
  leaves the server's state as it is and emits nothing at all: no \<^verbatim>\<open>error\<close> and no
  \<^verbatim>\<open>contact-removed\<close>.\<close>

theorem remove_unknown_contact_silent:
  assumes "map_of (trackers s) j = None"
  shows "remove_contact s j = (s, [])"
  using assms by (simp add: remove_contact_def)

theorem remove_unknown_contact_silent_witness:
  "map_of (trackers initial) ''4930123@s.whatsapp.net'' = None
   \<and> remove_contact initial ''4930123@s.whatsapp.net'' = (initial, [])"
proof -
  have h: "map_of (trackers initial) ''4930123@s.whatsapp.net'' = None"
    by (simp add: initial_def)
  from h remove_unknown_contact_silent[OF h] show ?thesis by simp
qed

lemma stopTracking_idem: "stopTracking (stopTracking t) = stopTracking t"
  by (simp add: stopTracking_def)

text \<open>A tracker that \<^verbatim>\<open>remove-contact\<close> has stopped stays \<open>Stopped\<close> whatever the server
  is asked afterwards, and a stopped tracker hands no snapshot to its observer.\<close>

lemma stop_phase:
  "b < length os \<Longrightarrow> phase (os ! b) = Stopped \<Longrightarrow>
   phase (os[r := stopTracking (os ! r)] ! b) = Stopped"
  by (cases "b = r") (simp_all add: stopTracking_def)

lemma stopped_stays_handle:
  assumes "r < length (objects s)" and "phase (objects s ! r) = Stopped"
  shows "r < length (objects (fst (handle s q))) \<and> phase (objects (fst (handle s q)) ! r) = Stopped"
proof (cases q)
  case (AddContact number r1 pp r2)
  show ?thesis
    using assms AddContact
    by (auto simp: add_contact_def add_contact_check_def add_contact_resume_def Let_def
          nth_append split: promise.splits option.splits)
next
  case (RemoveContact j)
  then show ?thesis
    using assms
    by (auto simp: remove_contact_def stop_phase split: option.splits)
next
  case (SetProbeMethod m)
  then show ?thesis
    using assms
    by (auto simp: set_probe_method_def set_all_length set_all_nth setProbeMethod_def)
qed

lemma stopped_stays_run:
  "r < length (objects s) \<Longrightarrow> phase (objects s ! r) = Stopped \<Longrightarrow>
   r < length (objects (run s qs)) \<and> phase (objects (run s qs) ! r) = Stopped"
proof (induction qs arbitrary: s)
  case Nil
  then show ?case by simp
next
  case (Cons q qs)
  from stopped_stays_handle[OF Cons.prems, of q] Cons.IH show ?case by simp
qed

lemma removed_tracker_is_silent:
  assumes "map_of (trackers s) j = Some r" and "r < length (objects s)"
  shows "round_result (objects (run (fst (remove_contact s j)) qs) ! r) d = []"
proof -
  let ?s = "fst (remove_contact s j)"
  have "r < length (objects ?s)" and "phase (objects ?s ! r) = Stopped"
    using assms by (simp_all add: remove_contact_def stopTracking_def)
  from stopped_stays_run[OF this, of qs] show ?thesis
    by (simp add: round_result_def)
qed

text \<open>C6: no \<^verbatim>\<open>tracker-update\<close> for an identity after \<^verbatim>\<open>stopTracking\<close> was invoked for
  it. \<^verbatim>\<open>remove-contact\<close> stops the one tracker the registry holds for the identity
  (\<open>removed_tracker_is_silent\<close>). But when the contact has been added twice, with the
  platform answering \<^verbatim>\<open>+55 11 98765-4321\<close> with \<^verbatim>\<open>551187654321@s.whatsapp.net\<close>, the
  first tracker object of that identity is no longer in the registry: after
  \<^verbatim>\<open>remove-contact\<close> has answered \<^verbatim>\<open>contact-removed\<close> it is still \<open>Tracking\<close>, and the
  end of its next round emits a \<^verbatim>\<open>tracker-update\<close> for the removed identity, for every
  snapshot \<open>d\<close>.\<close>

theorem update_after_remove_contact:
  "snd (remove_contact
       (run initial
          [AddContact ''+55 11 98765-4321''
             (Resolved (Some [\<lparr>wa_exists = True, wa_jid = ''551187654321@s.whatsapp.net'',
                               wa_notify = None\<rparr>]))
             (Resolved None) Rejected,
           AddContact ''+55 11 98765-4321''
             (Resolved (Some [\<lparr>wa_exists = True, wa_jid = ''551187654321@s.whatsapp.net'',
                               wa_notify = None\<rparr>]))
             (Resolved None) Rejected])
       ''551187654321@s.whatsapp.net'')
     = [(Requester, ContactRemoved ''551187654321@s.whatsapp.net'')]
   \<and> map phase (objects (run initial
          [AddContact ''+55 11 98765-4321''
             (Resolved (Some [\<lparr>wa_exists = True, wa_jid = ''551187654321@s.whatsapp.net'',
                               wa_notify = None\<rparr>]))
             (Resolved None) Rejected,
           AddContact ''+55 11 98765-4321''
             (Resolved (Some [\<lparr>wa_exists = True, wa_jid = ''551187654321@s.whatsapp.net'',
                               wa_notify = None\<rparr>]))
             (Resolved None) Rejected,
           RemoveContact ''551187654321@s.whatsapp.net'']))
     = [Tracking, Stopped]
   \<and> round_result (objects (run initial
          [AddContact ''+55 11 98765-4321''
             (Resolved (Some [\<lparr>wa_exists = True, wa_jid = ''551187654321@s.whatsapp.net'',
                               wa_notify = None\<rparr>]))
             (Resolved None) Rejected,
           AddContact ''+55 11 98765-4321''
             (Resolved (Some [\<lparr>wa_exists = True, wa_jid = ''551187654321@s.whatsapp.net'',
                               wa_notify = None\<rparr>]))
             (Resolved None) Rejected,
           RemoveContact ''551187654321@s.whatsapp.net'']) ! 0) d
     = [(Everyone, TrackerUpdate ''551187654321@s.whatsapp.net'' d)]"
  by (simp add: initial_def add_contact_def add_contact_check_def add_contact_resume_def
        targetJid_of_def cleanNumber_def is_digit_def first_result_def contact_name_def
        Let_def remove_contact_def round_result_def startTracking_def stopTracking_def
        setProbeMethod_def new_tracker_def)

subsection \<open>\<^verbatim>\<open>set-probe-method\<close>\<close>

text \<open>C3: a \<^verbatim>\<open>set-probe-method\<close> request whose method is neither \<^verbatim>\<open>delete\<close> nor
  \<^verbatim>\<open>reaction\<close> is answered with one error to the requester, and the whole server state
  (the global probe method, the registry and every tracker object, with its probe method)
  is left as it was.\<close>

theorem invalid_probe_method_rejected:
  assumes "m \<noteq> ''delete''" and "m \<noteq> ''reaction''"
  shows "set_probe_method s m = (s, [(Requester, ErrorMsg None ''Invalid probe method'')])"
  using assms by (simp add: set_probe_method_def)

theorem invalid_probe_method_rejected_witness:
  "''Delete'' \<noteq> ''delete'' \<and> ''Delete'' \<noteq> ''reaction''
   \<and> set_probe_method
     \<lparr>globalProbeMethod = ''reaction'', trackers = [(''1@s.whatsapp.net'', 0)],
      objects = [\<lparr>targetJid = ''1@s.whatsapp.net'', probeMethod = ''reaction'',
                  phase = Tracking, onUpdate = Some ''1@s.whatsapp.net''\<rparr>]\<rparr>
     ''Delete''
   = (\<lparr>globalProbeMethod = ''reaction'', trackers = [(''1@s.whatsapp.net'', 0)],
       objects = [\<lparr>targetJid = ''1@s.whatsapp.net'', probeMethod = ''reaction'',
                   phase = Tracking, onUpdate = Some ''1@s.whatsapp.net''\<rparr>]\<rparr>,
      [(Requester, ErrorMsg None ''Invalid probe method'')])"
proof -
  have a: "''Delete'' \<noteq> ''delete''" and b: "''Delete'' \<noteq> ''reaction''" by simp_all
  from a b invalid_probe_method_rejected[OF a b] show ?thesis by blast
qed

text \<open>For a method that is \<^verbatim>\<open>delete\<close> or \<^verbatim>\<open>reaction\<close>, the global probe method
  becomes that method, \<^verbatim>\<open>setProbeMethod(method)\<close> is applied to every tracker object the
  registry refers to and to no other object, the registry itself is unchanged, and
  the new method is broadcast to all clients with one \<^verbatim>\<open>probe-method\<close> event.\<close>

lemma probe_method_applied_to_all:
  assumes "m = ''delete'' \<or> m = ''reaction''" and "registry_ok s"
  shows "\<exists>os. set_probe_method s m =
            (s\<lparr>globalProbeMethod := m, objects := os\<rparr>, [(Everyone, ProbeMethodMsg m)])
          \<and> length os = length (objects s)
          \<and> (\<forall>(j, r) \<in> set (trackers s).
                r < length os \<and> os ! r = setProbeMethod m (objects s ! r))
          \<and> (\<forall>r < length os. r \<notin> snd ` set (trackers s) \<longrightarrow> os ! r = objects s ! r)"
proof -
  let ?os = "set_all m (map snd (trackers s)) (objects s)"
  have 1: "set_probe_method s m =
             (s\<lparr>globalProbeMethod := m, objects := ?os\<rparr>, [(Everyone, ProbeMethodMsg m)])"
    using assms(1) by (auto simp: set_probe_method_def)
  have 2: "length ?os = length (objects s)" by (rule set_all_length)
  have 3: "\<forall>(j, r) \<in> set (trackers s).
             r < length ?os \<and> ?os ! r = setProbeMethod m (objects s ! r)"
  proof (clarify)
    fix j r assume jr: "(j, r) \<in> set (trackers s)"
    then have lt: "r < length (objects s)"
      using assms(2) by (auto simp: registry_ok_def list_all_iff)
    have mem: "r \<in> set (map snd (trackers s))" using jr by force
    show "r < length ?os \<and> ?os ! r = setProbeMethod m (objects s ! r)"
      using lt mem by (simp add: set_all_length set_all_nth)
  qed
  have 4: "\<forall>r < length ?os. r \<notin> snd ` set (trackers s) \<longrightarrow> ?os ! r = objects s ! r"
    by (simp add: set_all_length set_all_nth)
  from 1 2 3 4 show ?thesis by blast
qed

lemma probe_method_applied_to_all_example:
  "(''reaction'' = ''delete'' \<or> ''reaction'' = ''reaction'')
   \<and> registry_ok
       \<lparr>globalProbeMethod = ''delete'', trackers = [(''2@s.whatsapp.net'', 1)],
        objects = [\<lparr>targetJid = ''1@s.whatsapp.net'', probeMethod = ''delete'',
                    phase = Stopped, onUpdate = Some ''1@s.whatsapp.net''\<rparr>,
                   \<lparr>targetJid = ''2@s.whatsapp.net'', probeMethod = ''delete'',
                    phase = Tracking, onUpdate = Some ''2@s.whatsapp.net''\<rparr>]\<rparr>
   \<and> (\<exists>os. set_probe_method
         \<lparr>globalProbeMethod = ''delete'', trackers = [(''2@s.whatsapp.net'', 1)],
          objects = [\<lparr>targetJid = ''1@s.whatsapp.net'', probeMethod = ''delete'',
                      phase = Stopped, onUpdate = Some ''1@s.whatsapp.net''\<rparr>,
                     \<lparr>targetJid = ''2@s.whatsapp.net'', probeMethod = ''delete'',
                      phase = Tracking, onUpdate = Some ''2@s.whatsapp.net''\<rparr>]\<rparr>
         ''reaction''
        = (\<lparr>globalProbeMethod = ''reaction'', trackers = [(''2@s.whatsapp.net'', 1)],
            objects = os\<rparr>, [(Everyone, ProbeMethodMsg ''reaction'')])
        \<and> length os = 2
        \<and> os ! 1 = setProbeMethod ''reaction''
             \<lparr>targetJid = ''2@s.whatsapp.net'', probeMethod = ''delete'',
              phase = Tracking, onUpdate = Some ''2@s.whatsapp.net''\<rparr>
        \<and> os ! 0 = \<lparr>targetJid = ''1@s.whatsapp.net'', probeMethod = ''delete'',
                      phase = Stopped, onUpdate = Some ''1@s.whatsapp.net''\<rparr>)"
proof -
  let ?s = "\<lparr>globalProbeMethod = ''delete'', trackers = [(''2@s.whatsapp.net'', 1)],
        objects = [\<lparr>targetJid = ''1@s.whatsapp.net'', probeMethod = ''delete'',
                    phase = Stopped, onUpdate = Some ''1@s.whatsapp.net''\<rparr>,
                   \<lparr>targetJid = ''2@s.whatsapp.net'', probeMethod = ''delete'',
                    phase = Tracking, onUpdate = Some ''2@s.whatsapp.net''\<rparr>]\<rparr>"
  have m: "''reaction'' = ''delete'' \<or> ''reaction'' = ''reaction''" by simp
  have h: "registry_ok ?s" by (simp add: registry_ok_def)
  from probe_method_applied_to_all[OF m h] obtain os where
    os: "set_probe_method ?s ''reaction'' =
           (?s\<lparr>globalProbeMethod := ''reaction'', objects := os\<rparr>,
            [(Everyone, ProbeMethodMsg ''reaction'')])"
      "length os = length (objects ?s)"
      "\<forall>(j, r) \<in> set (trackers ?s). r < length os \<and> os ! r = setProbeMethod ''reaction'' (objects ?s ! r)"
      "\<forall>r < length os. r \<notin> snd ` set (trackers ?s) \<longrightarrow> os ! r = objects ?s ! r"
    by blast
  from os(2) have len: "length os = 2" by simp
  from os(3) have one: "os ! 1 = setProbeMethod ''reaction''
             \<lparr>targetJid = ''2@s.whatsapp.net'', probeMethod = ''delete'',
              phase = Tracking, onUpdate = Some ''2@s.whatsapp.net''\<rparr>" by simp
  from os(4) len have zero: "os ! 0 = \<lparr>targetJid = ''1@s.whatsapp.net'', probeMethod = ''delete'',
                      phase = Stopped, onUpdate = Some ''1@s.whatsapp.net''\<rparr>" by simp
  from os(1) have "set_probe_method ?s ''reaction''
        = (\<lparr>globalProbeMethod = ''reaction'', trackers = [(''2@s.whatsapp.net'', 1)],
            objects = os\<rparr>, [(Everyone, ProbeMethodMsg ''reaction'')])" by simp
  with m h len one zero show ?thesis by blast
qed

text \<open>C4: a valid \<^verbatim>\<open>set-probe-method\<close> request sets the global probe method, applies
  \<^verbatim>\<open>setProbeMethod(method)\<close> to all active trackers and broadcasts the method. The loop of
  lines 166-168 runs over the registry only. After the same contact has been added twice,
  with the platform answering \<^verbatim>\<open>+55 11 98765-4321\<close> with
  \<^verbatim>\<open>551187654321@s.whatsapp.net\<close>, the first tracker object runs outside the registry:
  the request for \<^verbatim>\<open>reaction\<close> sets the global method, the method of the registered
  tracker and broadcasts, but the first tracker is still \<open>Tracking\<close> with \<^verbatim>\<open>delete\<close>.\<close>

theorem running_tracker_keeps_old_probe_method:
  "handle
     (run initial
        [AddContact ''+55 11 98765-4321''
           (Resolved (Some [\<lparr>wa_exists = True, wa_jid = ''551187654321@s.whatsapp.net'',
                             wa_notify = None\<rparr>]))
           (Resolved None) Rejected,
         AddContact ''+55 11 98765-4321''
           (Resolved (Some [\<lparr>wa_exists = True, wa_jid = ''551187654321@s.whatsapp.net'',
                             wa_notify = None\<rparr>]))
           (Resolved None) Rejected])
     (SetProbeMethod ''reaction'')
   = (\<lparr>globalProbeMethod = ''reaction'',
       trackers = [(''551187654321@s.whatsapp.net'', 1)],
       objects =
         [\<lparr>targetJid = ''551187654321@s.whatsapp.net'', probeMethod = ''delete'',
           phase = Tracking, onUpdate = Some ''551187654321@s.whatsapp.net''\<rparr>,
          \<lparr>targetJid = ''551187654321@s.whatsapp.net'', probeMethod = ''reaction'',
           phase = Tracking, onUpdate = Some ''551187654321@s.whatsapp.net''\<rparr>]\<rparr>,
      [(Everyone, ProbeMethodMsg ''reaction'')])"
  by (simp add: initial_def add_contact_def add_contact_check_def add_contact_resume_def
        targetJid_of_def cleanNumber_def is_digit_def first_result_def contact_name_def
        Let_def set_probe_method_def set_all_def startTracking_def setProbeMethod_def
        new_tracker_def)

section \<open>Properties of the dashboard\<close>





lemma includes_state_name: "str_includes (state_name st) ''Online'' = (st = Online)"
  by (cases st) simp_all

lemma find_online:
  assumes "map dev_state devs = map state_name sts"
  shows "(case find (\<lambda>d. str_includes (dev_state d) ''Online'') devs of
            None \<Rightarrow> Online \<notin> set sts
          | Some d \<Rightarrow> Online \<in> set sts \<and> dev_state d = ''Online'')"
  using assms
proof (induction devs arbitrary: sts)
  case Nil
  then show ?case by simp
next
  case (Cons a devs)
  then obtain st sts' where sts: "sts = st # sts'" "dev_state a = state_name st"
      "map dev_state devs = map state_name sts'"
    by (cases sts) auto
  show ?case
  proof (cases "st = Online")
    case True
    then show ?thesis using sts by simp
  next
    case False
    then have "\<not> str_includes (dev_state a) ''Online''"
      using sts by (simp add: includes_state_name)
    then show ?thesis using Cons.IH[OF sts(3)] sts False by (auto split: option.splits)
  qed
qed

lemma chart_state_classified:
  assumes "map dev_state (d0 # ds) = map state_name (s0 # ss)"
  shows "chart_state d0 ds = state_name (if Online \<in> set (s0 # ss) then Online else s0)"
proof (cases "find (\<lambda>d. str_includes (dev_state d) ''Online'') (d0 # ds)")
  case None
  with find_online[OF assms] have "Online \<notin> set (s0 # ss)" by (simp del: find.simps)
  moreover have "dev_state d0 = state_name s0" using assms by simp
  ultimately show ?thesis using None unfolding chart_state_def by (simp del: find.simps)
next
  case (Some d)
  with find_online[OF assms] have "Online \<in> set (s0 # ss)" "dev_state d = ''Online''"
    by (simp_all del: find.simps)
  then show ?thesis using Some unfolding chart_state_def by (simp del: find.simps)
qed

subsection \<open>The contacts map\<close>

text \<open>C10: in the dashboard, a \<^verbatim>\<open>tracker-update\<close>, \<^verbatim>\<open>profile-pic\<close> or \<^verbatim>\<open>contact-name\<close>
  event for an identity without an entry leaves the contacts map as it is; no event other
  than \<^verbatim>\<open>contact-added\<close> and \<^verbatim>\<open>contact-removed\<close> changes the set of keys of the map;
  \<^verbatim>\<open>contact-added\<close> adds its key and \<^verbatim>\<open>contact-removed\<close> removes its key. A
  \<^verbatim>\<open>tracker-update\<close> without a \<^verbatim>\<open>jid\<close>, or with an empty one, changes nothing either.\<close>

theorem contacts_created_and_removed_by_lifecycle_events:
  "(prev j = None \<longrightarrow>
       onTrackerUpdate (Some j) d now prev = prev
     \<and> onProfilePic j url prev = prev
     \<and> onContactName j name prev = prev)
   \<and> (contacts s j = None \<longrightarrow>
       contacts (receive now s (TrackerUpdate j d)) = contacts s
     \<and> contacts (receive now s (ProfilePic j url)) = contacts s
     \<and> contacts (receive now s (ContactName j name)) = contacts s)
   \<and> ((\<forall>k n. msg \<noteq> ContactAdded k n) \<and> (\<forall>k. msg \<noteq> ContactRemoved k) \<longrightarrow>
       dom (contacts (receive now s msg)) = dom (contacts s))
   \<and> dom (contacts (receive now s (ContactAdded j n))) = insert j (dom (contacts s))
   \<and> dom (contacts (receive now s (ContactRemoved j))) = dom (contacts s) - {j}
   \<and> onTrackerUpdate None d now prev = prev
   \<and> onTrackerUpdate (Some []) d now prev = prev"
proof -
  have a: "onTrackerUpdate (Some j) d now prev = prev \<and> onProfilePic j url prev = prev
     \<and> onContactName j name prev = prev" if "prev j = None" for prev
    using that by (simp add: onTrackerUpdate_def onProfilePic_def onContactName_def)
  have d1: "dom (onTrackerUpdate x e now p) = dom p" for x e p
    by (auto simp: onTrackerUpdate_def split: option.splits if_splits)
  have d2: "dom (onProfilePic x u p) = dom p" for x u p
    by (auto simp: onProfilePic_def split: option.splits if_splits)
  have d3: "dom (onContactName x u p) = dom p" for x u p
    by (auto simp: onContactName_def split: option.splits if_splits)
  have b: "dom (contacts (receive now s msg)) = dom (contacts s)"
    if "\<forall>k n. msg \<noteq> ContactAdded k n" and "\<forall>k. msg \<noteq> ContactRemoved k"
    using that by (cases msg) (simp_all add: d1 d2 d3)
  have c: "dom (contacts (receive now s (ContactAdded j n))) = insert j (dom (contacts s))"
    by (simp add: onContactAdded_def)
  have e: "dom (contacts (receive now s (ContactRemoved j))) = dom (contacts s) - {j}"
    by (simp add: onContactRemoved_def)
  have f: "onTrackerUpdate None d now prev = prev" "onTrackerUpdate (Some []) d now prev = prev"
    by (simp_all add: onTrackerUpdate_def)
  from a[of prev] a[of "contacts s"] b c e f show ?thesis by simp
qed

theorem contacts_created_and_removed_by_lifecycle_events_witness:
  "onContactAdded ''a'' ''1'' Map.empty ''b'' = None
   \<and> onTrackerUpdate (Some ''b'')
        \<lparr>upd_presence = Some (Some ''available''), upd_deviceCount = Some 1,
         upd_devices = Some [\<lparr>dev_jid = ''b:0'', dev_state = ''Online'', dev_rtt = 100, dev_avg = 100\<rparr>],
         upd_median = Some 100, upd_threshold = Some 400\<rparr> 0
        (onContactAdded ''a'' ''1'' Map.empty) = onContactAdded ''a'' ''1'' Map.empty
   \<and> onProfilePic ''b'' None (onContactAdded ''a'' ''1'' Map.empty)
       = onContactAdded ''a'' ''1'' Map.empty
   \<and> onContactName ''b'' ''Bea'' (onContactAdded ''a'' ''1'' Map.empty)
       = onContactAdded ''a'' ''1'' Map.empty
   \<and> dom (contacts (receive 0
        \<lparr>inputNumber = ''1'', contacts = onContactAdded ''a'' ''1'' Map.empty, error = None,
         dashProbeMethod = ''delete''\<rparr>
        (ErrorMsg None ''Invalid probe method''))) = {''a''}"
proof -
  let ?p = "onContactAdded ''a'' ''1'' Map.empty"
  let ?s = "\<lparr>inputNumber = ''1'', contacts = ?p, error = None, dashProbeMethod = ''delete''\<rparr>"
  let ?d = "\<lparr>upd_presence = Some (Some ''available''), upd_deviceCount = Some 1,
         upd_devices = Some [\<lparr>dev_jid = ''b:0'', dev_state = ''Online'', dev_rtt = 100, dev_avg = 100\<rparr>],
         upd_median = Some 100, upd_threshold = Some 400\<rparr>"
  have h: "?p ''b'' = None" by (simp add: onContactAdded_def)
  have m: "(\<forall>k n. ErrorMsg None ''Invalid probe method'' \<noteq> ContactAdded k n)
        \<and> (\<forall>k. ErrorMsg None ''Invalid probe method'' \<noteq> ContactRemoved k)" by simp
  have dm: "dom (contacts ?s) = {''a''}" by (simp add: onContactAdded_def)
  from contacts_created_and_removed_by_lifecycle_events
         [of ?p "''b''" ?d 0 None "''Bea''" ?s "ErrorMsg None ''Invalid probe method''"] h m dm
  show ?thesis by simp
qed

subsection \<open>Device states in the chart\<close>




subsection \<open>The classifier and the headline state\<close>

text \<open>The claim C7 gives the contact-level state as \<open>Online\<close> if any device is \<open>Online\<close>,
  else \<open>Offline\<close> if any device reported, else \<open>Unknown\<close>. The dashboard's line 72 falls
  back to the first device of the list: with a first device that did not report and a
  second that reported an RTT of 900 above the threshold 400, it gives \<open>Unknown\<close> where
  the claim gives \<open>Offline\<close>. And for an update without devices, where the claim gives
  \<open>Unknown\<close>, the dashboard derives no state at all: the chart stays empty.\<close>

theorem headline_state_first_device_counterexample:
  "chart_state
     \<lparr>dev_jid = ''a:0'', dev_state = state_name (classify None 400), dev_rtt = 0, dev_avg = 0\<rparr>
     [\<lparr>dev_jid = ''a:1'', dev_state = state_name (classify (Some 900) 400), dev_rtt = 900,
       dev_avg = 900\<rparr>] = ''Unknown''
   \<and> state_name (aggregate_spec 400 [None, Some 900]) = ''Offline''
   \<and> map pt_state (c_data (update_contact
        \<lparr>upd_presence = None, upd_deviceCount = Some 0, upd_devices = Some [],
         upd_median = Some 0, upd_threshold = Some 400\<rparr> 0
        \<lparr>c_jid = ''a'', displayNumber = ''1'', contactName = ''1'', c_data = [],
         c_devices = [], deviceCount = 0, presence = None, profilePic = None\<rparr>)) = []
   \<and> state_name (aggregate_spec 400 []) = ''Unknown''"
  by (simp add: chart_state_def classify_def aggregate_spec_def update_contact_def add_point_def)

text \<open>C7, as the code has it. The classifier (of the specification): no sample gives
  \<open>Unknown\<close>, a sample with RTT at most the threshold \<open>Online\<close>, a sample with RTT above it
  \<open>Offline\<close>. The dashboard's headline state for a non-empty device list whose states are
  the classifier's: \<open>Online\<close> if any device is \<open>Online\<close>, and otherwise the state of the
  first device of the list. That is the aggregate of the claim exactly when some device is
  \<open>Online\<close>, or the first device reported, or no other device reported. For an empty
  device list the dashboard derives no state: no chart point is appended.\<close>

theorem classifier_and_headline_state:
  assumes "map dev_state (d0 # ds) = map (\<lambda>x. state_name (classify x th)) (x0 # xs)"
  shows "classify None th = Unknown
       \<and> classify (Some rtt) th = (if rtt \<le> th then Online else Offline)
       \<and> chart_state d0 ds =
           state_name (if list_ex (\<lambda>x. classify x th = Online) (x0 # xs) then Online
                       else classify x0 th)
       \<and> (chart_state d0 ds = state_name (aggregate_spec th (x0 # xs))
            \<longleftrightarrow> list_ex (\<lambda>x. classify x th = Online) (x0 # xs) \<or> x0 \<noteq> None
                \<or> list_all (\<lambda>x. x = None) xs)
       \<and> add_point (e\<lparr>upd_devices := Some []\<rparr>) now c = c"
proof -
  define on where "on \<longleftrightarrow> list_ex (\<lambda>x. classify x th = Online) (x0 # xs)"
  have c1: "classify None th = Unknown" by (simp add: classify_def)
  have c2: "classify (Some rtt) th = (if rtt \<le> th then Online else Offline)"
    by (simp add: classify_def)
  have m: "map dev_state (d0 # ds) = map state_name (classify x0 th # map (\<lambda>x. classify x th) xs)"
    using assms by simp
  have mem: "Online \<in> set (classify x0 th # map (\<lambda>x. classify x th) xs) \<longleftrightarrow> on"
    unfolding on_def list_ex_iff by force
  have cs: "chart_state d0 ds = state_name (if on then Online else classify x0 th)"
    unfolding chart_state_classified[OF m] mem ..
  have inj: "state_name a = state_name b \<longleftrightarrow> a = b" for a b
    by (cases a; cases b) simp_all
  have agg: "aggregate_spec th (x0 # xs) =
      (if on then Online
       else if x0 \<noteq> None \<or> \<not> list_all (\<lambda>x. x = None) xs then Offline else Unknown)"
    unfolding on_def aggregate_spec_def by (auto simp: list_ex_iff list_all_iff)
  have agree: "chart_state d0 ds = state_name (aggregate_spec th (x0 # xs))
        \<longleftrightarrow> on \<or> x0 \<noteq> None \<or> list_all (\<lambda>x. x = None) xs"
  proof (cases on)
    case True
    then show ?thesis unfolding cs agg inj by simp
  next
    case False
    then have "classify x0 th \<noteq> Online" unfolding on_def by simp
    then have "classify x0 th = (if x0 = None then Unknown else Offline)"
      by (cases x0) (simp_all add: classify_def split: if_splits)
    then show ?thesis using False unfolding cs agg inj by auto
  qed
  have empty: "add_point (e\<lparr>upd_devices := Some []\<rparr>) now c = c"
    by (simp add: add_point_def split: option.splits)
  show ?thesis
    using c1 c2 cs agree empty unfolding on_def by (intro conjI)
qed

theorem classifier_and_headline_state_witness:
  "map dev_state
     [\<lparr>dev_jid = ''a:0'', dev_state = ''Online'', dev_rtt = 120, dev_avg = 120\<rparr>,
      \<lparr>dev_jid = ''a:1'', dev_state = ''Offline'', dev_rtt = 900, dev_avg = 900\<rparr>]
     = map (\<lambda>x. state_name (classify x 400)) [Some 120, Some 900]
   \<and> chart_state
       \<lparr>dev_jid = ''a:0'', dev_state = ''Online'', dev_rtt = 120, dev_avg = 120\<rparr>
       [\<lparr>dev_jid = ''a:1'', dev_state = ''Offline'', dev_rtt = 900, dev_avg = 900\<rparr>]
     = state_name (aggregate_spec 400 [Some 120, Some 900])
   \<and> state_name (aggregate_spec 400 [Some 120, Some 900]) = ''Online''"
proof -
  let ?A = "\<lparr>dev_jid = ''a:0'', dev_state = ''Online'', dev_rtt = 120, dev_avg = 120\<rparr>"
  let ?B = "\<lparr>dev_jid = ''a:1'', dev_state = ''Offline'', dev_rtt = 900, dev_avg = 900\<rparr>"
  have h: "map dev_state (?A # [?B]) = map (\<lambda>x. state_name (classify x 400)) (Some 120 # [Some 900])"
    by (simp add: classify_def)
  have a: "state_name (aggregate_spec 400 [Some 120, Some 900]) = ''Online''"
    by (simp add: aggregate_spec_def classify_def)
  from classifier_and_headline_state[OF h] h a show ?thesis by simp
qed

end
